theory Spec2Isabelle
  imports Complex_Main "HOL-Library.AList"
begin

section \<open>Float values\<close>

text \<open>
  The dashboard computes on float64 columns. A float is modelled as a real number or one of
  the three special values; \<open>NaN\<close> is the "no value" marker of a series. The operations of
  this section are exact; rounding and overflow are added by \<open>fl64\<close> further down, for the
  statements that depend on them. The sign of zero is not modelled (a zero divisor is read
  as \<open>+0.0\<close>).
\<close>

datatype fval = Fin real | PInf | NInf | NaN

fun is_nan :: "fval \<Rightarrow> bool" where
  "is_nan NaN = True"
| "is_nan _ = False"

definition signed_inf :: "real \<Rightarrow> fval" where
  "signed_inf s = (if 0 < s then PInf else if s < 0 then NInf else NaN)"

fun fsgn :: "fval \<Rightarrow> real" where
  "fsgn (Fin x) = sgn x"
| "fsgn PInf = 1"
| "fsgn NInf = - 1"
| "fsgn NaN = 0"

fun fneg :: "fval \<Rightarrow> fval" where
  "fneg (Fin x) = Fin (- x)"
| "fneg PInf = NInf"
| "fneg NInf = PInf"
| "fneg NaN = NaN"

fun fadd :: "fval \<Rightarrow> fval \<Rightarrow> fval" where
  "fadd NaN _ = NaN"
| "fadd _ NaN = NaN"
| "fadd (Fin x) (Fin y) = Fin (x + y)"
| "fadd PInf NInf = NaN"
| "fadd NInf PInf = NaN"
| "fadd PInf _ = PInf"
| "fadd NInf _ = NInf"
| "fadd _ PInf = PInf"
| "fadd _ NInf = NInf"

definition fsub :: "fval \<Rightarrow> fval \<Rightarrow> fval" where
  "fsub a b = fadd a (fneg b)"

fun fmul :: "fval \<Rightarrow> fval \<Rightarrow> fval" where
  "fmul NaN _ = NaN"
| "fmul _ NaN = NaN"
| "fmul (Fin x) (Fin y) = Fin (x * y)"
| "fmul a b = signed_inf (fsgn a * fsgn b)"

fun fdiv :: "fval \<Rightarrow> fval \<Rightarrow> fval" where
  "fdiv NaN _ = NaN"
| "fdiv _ NaN = NaN"
| "fdiv (Fin x) (Fin y) = (if y = 0 then signed_inf x else Fin (x / y))"
| "fdiv (Fin x) _ = Fin 0"
| "fdiv a (Fin y) = signed_inf (fsgn a * (if y < 0 then - 1 else 1))"
| "fdiv _ _ = NaN"

fun fsqrt :: "fval \<Rightarrow> fval" where
  "fsqrt (Fin x) = (if x < 0 then NaN else Fin (sqrt x))"
| "fsqrt PInf = PInf"
| "fsqrt NInf = NaN"
| "fsqrt NaN = NaN"

primrec fsum :: "fval list \<Rightarrow> fval" where
  "fsum [] = Fin 0"
| "fsum (v # vs) = fadd v (fsum vs)"


section \<open>Series and data frames\<close>

text \<open>
  A pandas Series is the list of its values; a DataFrame is its row index together with its
  columns in order, each a name and a Series. Timestamps are day numbers.
\<close>

type_synonym series = "fval list"
type_synonym timestamp = int

record frame =
  index :: "timestamp list"
  columns :: "(string \<times> series) list"

datatype error = ValueError string | KeyError string | IndexError | ProviderError string

definition bind :: "error + 'a \<Rightarrow> ('a \<Rightarrow> error + 'b) \<Rightarrow> error + 'b" where
  "bind m f = (case m of Inl e \<Rightarrow> Inl e | Inr x \<Rightarrow> f x)"

text \<open>\<open>data.empty\<close>: some axis of the frame has length 0.\<close>

definition frame_empty :: "frame \<Rightarrow> bool" where
  "frame_empty d = (index d = [] \<or> columns d = [])"

text \<open>\<open>len(data)\<close>: the number of rows.\<close>

definition len :: "frame \<Rightarrow> nat" where
  "len d = length (index d)"

text \<open>\<open>data[k]\<close> raises KeyError for a missing column.\<close>

definition getitem :: "frame \<Rightarrow> string \<Rightarrow> error + series" where
  "getitem d k = (case map_of (columns d) k of None \<Rightarrow> Inl (KeyError k) | Some s \<Rightarrow> Inr s)"

text \<open>\<open>data[k] = s\<close> replaces the column \<open>k\<close> where it stands, or appends it.\<close>

definition setitem :: "frame \<Rightarrow> string \<Rightarrow> series \<Rightarrow> frame" where
  "setitem d k s = d\<lparr>columns := AList.update k s (columns d)\<rparr>"

text \<open>\<open>k in data.columns\<close>.\<close>

definition has_column :: "frame \<Rightarrow> string \<Rightarrow> bool" where
  "has_column d k = (k \<in> set (map fst (columns d)))"

text \<open>\<open>s.iloc[i]\<close>: positional access, a negative position counts from the end.\<close>

definition iloc :: "'a list \<Rightarrow> int \<Rightarrow> error + 'a" where
  "iloc s i =
     (let n = int (length s) in
      if 0 \<le> i \<and> i < n then Inr (s ! nat i)
      else if - n \<le> i \<and> i < 0 then Inr (s ! nat (n + i))
      else Inl IndexError)"


section \<open>The pandas operations the dashboard calls\<close>

text \<open>
  \<open>Series.pct_change()\<close> with its default period 1: the first entry has no predecessor and
  is NaN, every later entry is \<open>cur / prev - 1\<close>, here in exact arithmetic (the float64
  computation is \<open>pct_change_rounded fl64\<close> below). Closes that are themselves NaN are not
  padded here; the theorems below are about NaN-free closes.
\<close>

fun pct_change :: "series \<Rightarrow> series" where
  "pct_change [] = []"
| "pct_change (x # xs) = NaN # map2 (\<lambda>prev cur. fsub (fdiv cur prev) (Fin 1)) (x # xs) xs"

text \<open>
  \<open>Series.ewm(span=s).mean()\<close> with the defaults \<open>adjust=True\<close>, \<open>ignore_na=False\<close>,
  \<open>min_periods=0\<close>. The span gives the centre of mass \<open>com = (s - 1) / 2\<close> and
  \<open>alpha = 1 / (1 + com)\<close>. The loop carries the running average \<open>weighted\<close> and the total
  weight \<open>old_wt\<close> of the observations behind it; with \<open>adjust=True\<close> a new observation
  enters with weight 1. (pandas rejects a span below 1; the dashboard passes 9, 50 and 200.)
\<close>

definition get_center_of_mass :: "real \<Rightarrow> real" where
  "get_center_of_mass spn = (spn - 1) / 2"

definition ewm_step :: "real \<Rightarrow> fval \<times> real \<Rightarrow> fval \<Rightarrow> fval \<times> real" where
  "ewm_step old_wt_factor st cur =
     (case st of (weighted, old_wt) \<Rightarrow>
        if \<not> is_nan weighted then
          (let old_wt' = old_wt * old_wt_factor in
           if \<not> is_nan cur then
             ((if weighted \<noteq> cur
               then fdiv (fadd (fmul (Fin old_wt') weighted) (fmul (Fin 1) cur)) (Fin (old_wt' + 1))
               else weighted),
              old_wt' + 1)
           else (weighted, old_wt'))
        else if \<not> is_nan cur then (cur, old_wt)
        else (weighted, old_wt))"

fun ewm_loop :: "real \<Rightarrow> fval \<times> real \<Rightarrow> series \<Rightarrow> series" where
  "ewm_loop old_wt_factor st [] = []"
| "ewm_loop old_wt_factor st (cur # rest) =
     (let st' = ewm_step old_wt_factor st cur in fst st' # ewm_loop old_wt_factor st' rest)"

definition ewm_mean :: "real \<Rightarrow> series \<Rightarrow> series" where
  "ewm_mean spn vals =
     (let alpha = 1 / (1 + get_center_of_mass spn) in
      case vals of
        [] \<Rightarrow> []
      | v # rest \<Rightarrow> v # ewm_loop (1 - alpha) (v, 1) rest)"

text \<open>\<open>Series.dropna()\<close> keeps the entries that are not NaN.\<close>

definition dropna :: "series \<Rightarrow> series" where
  "dropna s = filter (\<lambda>v. \<not> is_nan v) s"

text \<open>
  \<open>Series.mean()\<close> and \<open>Series.std()\<close> skip NaN entries. The mean of no values is NaN; the
  standard deviation has \<open>ddof = 1\<close> and is NaN unless more than one value is left.
\<close>

definition mean :: "series \<Rightarrow> fval" where
  "mean s =
     (let vals = dropna s; count = length vals in
      if count = 0 then NaN else fdiv (fsum vals) (Fin (real count)))"

definition std :: "series \<Rightarrow> fval" where
  "std s =
     (let vals = dropna s; count = length vals in
      if count \<le> 1 then NaN
      else
        (let avg = fdiv (fsum vals) (Fin (real count));
             sqr = map (\<lambda>v. fmul (fsub avg v) (fsub avg v)) vals
         in fsqrt (fdiv (fsum sqr) (Fin (real (count - 1))))))"


section \<open>fetch_stock_data\<close>

text \<open>
  The market-data call \<open>yf.Ticker(symbol).history(period=period)\<close> is the parameter
  \<open>history\<close>: it yields a frame or raises. \<open>fetch_body\<close> is the body of the \<open>try\<close> block;
  \<open>fetch_stock_data\<close> adds the handler, which turns every exception into the return value
  \<open>None\<close>. The five-minute cache and the printed message are not part of the model.
\<close>

definition fetch_body :: "(string \<Rightarrow> string \<Rightarrow> error + frame) \<Rightarrow> string \<Rightarrow> string \<Rightarrow> error + frame" where
  "fetch_body history symbol period =
     bind (history symbol period) (\<lambda>data.
       if frame_empty data then Inl (ValueError (''No data found for '' @ symbol))
       else
         bind (getitem data ''Close'') (\<lambda>c1.
         let data1 = setitem data ''Returns'' (pct_change c1) in
         bind (getitem data1 ''Close'') (\<lambda>c2.
         let data2 = setitem data1 ''EMA_9'' (ewm_mean 9 c2) in
         bind (getitem data2 ''Close'') (\<lambda>c3.
         let data3 = setitem data2 ''EMA_50'' (ewm_mean 50 c3) in
         bind (getitem data3 ''Close'') (\<lambda>c4.
         let data4 = setitem data3 ''EMA_200'' (ewm_mean 200 c4) in
         Inr data4)))))"

definition fetch_stock_data :: "(string \<Rightarrow> string \<Rightarrow> error + frame) \<Rightarrow> string \<Rightarrow> string \<Rightarrow> frame option" where
  "fetch_stock_data history symbol period =
     (case fetch_body history symbol period of Inl e \<Rightarrow> None | Inr data \<Rightarrow> Some data)"


section \<open>create_stock_chart\<close>

text \<open>A plotly figure: its traces, its annotations and its layout, as far as the chart sets them.\<close>

record line_style =
  color :: string
  width :: nat

record trace =
  tr_x :: "timestamp list"
  tr_y :: series
  tr_mode :: string
  tr_name :: string
  tr_line :: line_style
  tr_opacity :: "real option"

record annotation =
  an_text :: string
  an_xref :: string
  an_yref :: string
  an_x :: real
  an_y :: real
  an_showarrow :: bool

record layout =
  title :: string
  xaxis_title :: string
  yaxis_title :: string
  template :: string
  height :: nat
  showlegend :: bool
  legend :: "real \<times> real"
  margin :: "nat \<times> nat \<times> nat \<times> nat"
  xaxis_rangeslider_visible :: bool

record figure =
  fig_data :: "trace list"
  fig_annotations :: "annotation list"
  fig_layout :: "layout option"

definition Figure :: figure where
  "Figure = \<lparr>fig_data = [], fig_annotations = [], fig_layout = None\<rparr>"

definition add_annotation :: "figure \<Rightarrow> annotation \<Rightarrow> figure" where
  "add_annotation fig a = fig\<lparr>fig_annotations := fig_annotations fig @ [a]\<rparr>"

definition add_trace :: "figure \<Rightarrow> trace \<Rightarrow> figure" where
  "add_trace fig t = fig\<lparr>fig_data := fig_data fig @ [t]\<rparr>"

definition Scatter :: "timestamp list \<Rightarrow> series \<Rightarrow> string \<Rightarrow> string \<Rightarrow> line_style \<Rightarrow> real option \<Rightarrow> trace" where
  "Scatter x y mode name line opacity =
     \<lparr>tr_x = x, tr_y = y, tr_mode = mode, tr_name = name, tr_line = line, tr_opacity = opacity\<rparr>"

text \<open>
  The chart: the placeholder figure for no data, otherwise the close line, then one line for
  each moving-average column the frame has, then the layout (the two \<open>update_layout\<close> calls
  are one record here).
\<close>

definition create_stock_chart :: "frame option \<Rightarrow> string \<Rightarrow> error + figure" where
  "create_stock_chart data_opt symbol =
     (case data_opt of
        None \<Rightarrow>
          Inr (add_annotation Figure
            \<lparr>an_text = ''No data available'', an_xref = ''paper'', an_yref = ''paper'',
             an_x = 1 / 2, an_y = 1 / 2, an_showarrow = False\<rparr>)
      | Some data \<Rightarrow>
          if frame_empty data then
            Inr (add_annotation Figure
              \<lparr>an_text = ''No data available'', an_xref = ''paper'', an_yref = ''paper'',
               an_x = 1 / 2, an_y = 1 / 2, an_showarrow = False\<rparr>)
          else
            bind (getitem data ''Close'') (\<lambda>y.
            let fig = add_trace Figure
                        (Scatter (index data) y ''lines'' (symbol @ '' Close'')
                           \<lparr>color = ''#00BFFF'', width = 2\<rparr> None) in
            bind (if has_column data ''EMA_9''
                  then bind (getitem data ''EMA_9'') (\<lambda>y.
                         Inr (add_trace fig (Scatter (index data) y ''lines'' ''EMA 9''
                                \<lparr>color = ''orange'', width = 1\<rparr> (Some (7 / 10)))))
                  else Inr fig) (\<lambda>fig.
            bind (if has_column data ''EMA_50''
                  then bind (getitem data ''EMA_50'') (\<lambda>y.
                         Inr (add_trace fig (Scatter (index data) y ''lines'' ''EMA 50''
                                \<lparr>color = ''#4169E1'', width = 1\<rparr> (Some (7 / 10)))))
                  else Inr fig) (\<lambda>fig.
            bind (if has_column data ''EMA_200''
                  then bind (getitem data ''EMA_200'') (\<lambda>y.
                         Inr (add_trace fig (Scatter (index data) y ''lines'' ''EMA 200''
                                \<lparr>color = ''#191970'', width = 1\<rparr> (Some (7 / 10)))))
                  else Inr fig) (\<lambda>fig.
            Inr (fig\<lparr>fig_layout := Some
              \<lparr>title = symbol @ '' Stock Price'', xaxis_title = ''Date'',
               yaxis_title = ''Price ($)'', template = ''plotly_white'', height = 500,
               showlegend = True, legend = (1 / 100, 99 / 100), margin = (50, 50, 50, 50),
               xaxis_rangeslider_visible = False\<rparr>\<rparr>))))))"


section \<open>create_stats_panel\<close>

text \<open>
  The panel is a Markdown pane. Its text is either the fixed placeholder or the statistics
  template filled with the figures below; how a figure is printed (\<open>:.2f\<close> and the like)
  is not modelled, the figures themselves are.
\<close>

record stats =
  current_price :: fval
  daily_change :: fval
  daily_change_pct :: fval
  period_return :: fval
  annualized_return :: fval
  volatility :: fval
  latest_volume :: fval
  avg_volume :: fval
  range_start :: timestamp
  range_end :: timestamp

datatype pane = Markdown string | Markdown_stats stats

definition create_stats_panel :: "frame option \<Rightarrow> error + pane" where
  "create_stats_panel data_opt =
     (case data_opt of
        None \<Rightarrow> Inr (Markdown ''**No data available**'')
      | Some data \<Rightarrow>
          if frame_empty data then Inr (Markdown ''**No data available**'')
          else
            bind (getitem data ''Close'') (\<lambda>close.
            bind (iloc close (- 1)) (\<lambda>current_price.
            bind (if 1 < len data then iloc close (- 2) else Inr current_price) (\<lambda>prev_close.
            let daily_change = fsub current_price prev_close;
                daily_change_pct = fmul (fdiv daily_change prev_close) (Fin 100) in
            bind (iloc close 0) (\<lambda>period_start.
            let period_return =
                  fmul (fdiv (fsub current_price period_start) period_start) (Fin 100) in
            bind (getitem data ''Returns'') (\<lambda>rets.
            let returns = dropna rets;
                volatility = fmul (fmul (std returns) (Fin (sqrt 252))) (Fin 100);
                annualized_return = fmul (fmul (mean returns) (Fin 252)) (Fin 100) in
            bind (getitem data ''Volume'') (\<lambda>vol.
            let avg_volume = mean vol in
            bind (iloc vol (- 1)) (\<lambda>latest_volume.
            bind (iloc (index data) 0) (\<lambda>d0.
            bind (iloc (index data) (- 1)) (\<lambda>d1.
            Inr (Markdown_stats
              \<lparr>current_price = current_price, daily_change = daily_change,
               daily_change_pct = daily_change_pct, period_return = period_return,
               annualized_return = annualized_return, volatility = volatility,
               latest_volume = latest_volume, avg_volume = avg_volume,
               range_start = d0, range_end = d1\<rparr>)))))))))))"


section \<open>Rounding to float64\<close>











section \<open>What the specification says, and fixtures for concrete runs\<close>

text \<open>
  The smoothing factor of span \<open>s\<close>, and the moving average as the specification writes
  it in its cumulative-weighted reading: the closes seen so far, the one \<open>k\<close> bars back
  weighted by \<open>(1 - \<alpha>) ^ k\<close>, divided by the sum of the weights. \<open>step_factor \<alpha> i\<close> is the
  share of the newest close in that average at index \<open>i\<close>.
\<close>

definition ema_alpha :: "real \<Rightarrow> real" where
  "ema_alpha s = 2 / (s + 1)"

definition weighted_ema :: "real \<Rightarrow> real list \<Rightarrow> nat \<Rightarrow> real" where
  "weighted_ema \<alpha> close i =
     (\<Sum>k\<le>i. (1 - \<alpha>) ^ k * close ! (i - k)) / (\<Sum>k\<le>i. (1 - \<alpha>) ^ k)"

definition step_factor :: "real \<Rightarrow> nat \<Rightarrow> real" where
  "step_factor \<alpha> i = 1 / (\<Sum>k\<le>i. (1 - \<alpha>) ^ k)"

text \<open>
  A non-empty price history: the frame has one row per close and its \<open>Close\<close> column holds
  the finite values \<open>close\<close>.
\<close>

definition price_history :: "frame \<Rightarrow> real list \<Rightarrow> bool" where
  "price_history d close =
     (close \<noteq> [] \<and> length (index d) = length close \<and>
      map_of (columns d) ''Close'' = Some (map Fin close))"

text \<open>Reading a column of the fetched frame, and the figures of a statistics panel.\<close>

definition column_of :: "frame option \<Rightarrow> string \<Rightarrow> series option" where
  "column_of r k = (case r of None \<Rightarrow> None | Some e \<Rightarrow> map_of (columns e) k)"

fun stats_of :: "error + pane \<Rightarrow> stats option" where
  "stats_of (Inr (Markdown_stats s)) = Some s"
| "stats_of _ = None"

text \<open>
  A market-data call that answers with the frame \<open>d\<close>, one that raises \<open>e\<close>, and a frame
  of OHLCV columns.
\<close>

definition provider :: "frame \<Rightarrow> string \<Rightarrow> string \<Rightarrow> error + frame" where
  "provider d symbol period = Inr d"

definition failing_provider :: "error \<Rightarrow> string \<Rightarrow> string \<Rightarrow> error + frame" where
  "failing_provider e symbol period = Inl e"

definition ohlcv_frame ::
  "timestamp list \<Rightarrow> real list \<Rightarrow> real list \<Rightarrow> real list \<Rightarrow> real list \<Rightarrow> real list \<Rightarrow> frame" where
  "ohlcv_frame ts opens highs lows closes volumes =
     \<lparr>index = ts,
      columns = [(''Open'', map Fin opens), (''High'', map Fin highs), (''Low'', map Fin lows),
                 (''Close'', map Fin closes), (''Volume'', map Fin volumes)]\<rparr>"

text \<open>
  The daily returns of a close series as the specification writes them, one for every bar
  after the first, and the two statistics it annualizes.
\<close>

definition daily_returns :: "real list \<Rightarrow> real list" where
  "daily_returns close =
     map (\<lambda>i. (close ! i - close ! (i - 1)) / close ! (i - 1)) [1..<length close]"

definition arith_mean :: "real list \<Rightarrow> real" where
  "arith_mean rs = sum_list rs / real (length rs)"

definition sample_stddev :: "real list \<Rightarrow> real" where
  "sample_stddev rs =
     sqrt ((\<Sum>r\<leftarrow>rs. (r - arith_mean rs)\<^sup>2) / real (length rs - 1))"

text \<open>The inputs that stand for "no data": \<open>data is None or data.empty\<close>.\<close>

fun no_data :: "frame option \<Rightarrow> bool" where
  "no_data None = True"
| "no_data (Some d) = frame_empty d"

text \<open>Ten flat bars at 100.0.\<close>

definition flat_ten_bars :: frame where
  "flat_ten_bars =
     ohlcv_frame [0, 1, 2, 3, 4, 5, 6, 7, 8, 9] (replicate 10 100) (replicate 10 100)
       (replicate 10 100) (replicate 10 100) (replicate 10 5000)"


section \<open>The moving average in closed form\<close>

lemma ewm_step_fin:
  assumes "0 \<le> q" "0 < D"
  shows "ewm_step q (Fin w, D) (Fin y) = (Fin ((D * q * w + y) / (D * q + 1)), D * q + 1)"
proof -
  have pos: "0 < D * q + 1" using assms by (simp add: add_nonneg_pos)
  show ?thesis
  proof (cases "w = y")
    case True
    have "(D * q * y + y) / (D * q + 1) = y"
      using pos by (simp add: field_simps)
    with True show ?thesis by (simp add: ewm_step_def)
  next
    case False
    with pos show ?thesis by (simp add: ewm_step_def Let_def)
  qed
qed

lemma ewm_loop_length: "length (ewm_loop q st ys) = length ys"
  by (induction ys arbitrary: st) (simp_all add: Let_def)

lemma ewm_loop_nth:
  assumes "0 \<le> q" "0 < D" "j < length ys"
  shows "ewm_loop q (Fin w, D) (map Fin ys) ! j =
         Fin ((q ^ Suc j * D * w + (\<Sum>k\<le>j. q ^ k * ys ! (j - k))) / (q ^ Suc j * D + (\<Sum>k\<le>j. q ^ k)))"
  using assms
proof (induction ys arbitrary: w D j)
  case Nil
  then show ?case by simp
next
  case (Cons y rest)
  have pos: "0 < D * q + 1" using Cons.prems by (simp add: add_nonneg_pos)
  have step: "ewm_step q (Fin w, D) (Fin y) = (Fin ((D * q * w + y) / (D * q + 1)), D * q + 1)"
    using Cons.prems by (simp add: ewm_step_fin)
  show ?case
  proof (cases j)
    case 0
    then show ?thesis using step by (simp add: Let_def mult.commute)
  next
    case (Suc j')
    then have j': "j' < length rest" using Cons.prems by simp
    have ih: "ewm_loop q (Fin ((D * q * w + y) / (D * q + 1)), D * q + 1) (map Fin rest) ! j' =
         Fin ((q ^ Suc j' * (D * q + 1) * ((D * q * w + y) / (D * q + 1)) + (\<Sum>k\<le>j'. q ^ k * rest ! (j' - k)))
              / (q ^ Suc j' * (D * q + 1) + (\<Sum>k\<le>j'. q ^ k)))"
      using Cons.IH[OF Cons.prems(1) pos j'] .
    have n1: "q ^ Suc j' * (D * q + 1) * ((D * q * w + y) / (D * q + 1)) = q ^ Suc (Suc j') * D * w + q ^ Suc j' * y"
      using pos by (simp add: field_simps)
    have n2: "(\<Sum>k\<le>Suc j'. q ^ k * (y # rest) ! (Suc j' - k)) = (\<Sum>k\<le>j'. q ^ k * rest ! (j' - k)) + q ^ Suc j' * y"
      by (simp add: Suc_diff_le)
    have d1: "q ^ Suc j' * (D * q + 1) + (\<Sum>k\<le>j'. q ^ k) = q ^ Suc (Suc j') * D + (\<Sum>k\<le>Suc j'. q ^ k)"
      by (simp add: field_simps)
    show ?thesis
      unfolding Suc using step ih n1 n2 d1 by (simp add: Let_def add.commute add.left_commute)
  qed
qed

lemma ewm_mean_length: "length (ewm_mean s vals) = length vals"
  by (cases vals) (simp_all add: ewm_mean_def ewm_loop_length)

lemma ewm_alpha: "0 \<le> s \<Longrightarrow> 1 / (1 + get_center_of_mass s) = ema_alpha s"
  by (simp add: get_center_of_mass_def ema_alpha_def field_simps)

lemma ewm_mean_nth:
  assumes "1 \<le> s" "i < length close"
  shows "ewm_mean s (map Fin close) ! i = Fin (weighted_ema (ema_alpha s) close i)"
proof -
  have a: "1 / (1 + get_center_of_mass s) = ema_alpha s"
    using assms(1) by (simp add: ewm_alpha)
  have q: "0 \<le> 1 - ema_alpha s"
    using assms(1) by (simp add: ema_alpha_def)
  obtain x rest where xs: "close = x # rest"
    using assms(2) by (cases close) auto
  show ?thesis
  proof (cases i)
    case 0
    then show ?thesis by (simp add: xs ewm_mean_def weighted_ema_def)
  next
    case (Suc j)
    then have j: "j < length rest" using assms(2) xs by simp
    have s1: "(\<Sum>k\<le>Suc j. (1 - ema_alpha s) ^ k * (x # rest) ! (Suc j - k)) =
              (\<Sum>k\<le>j. (1 - ema_alpha s) ^ k * rest ! (j - k)) + (1 - ema_alpha s) ^ Suc j * x"
      by (simp add: Suc_diff_le)
    show ?thesis
      unfolding Suc xs weighted_ema_def
      using ewm_loop_nth[OF q _ j, of 1 x] s1
      by (simp add: ewm_mean_def a add.commute)
  qed
qed

lemma weight_sum_pos: "0 \<le> q \<Longrightarrow> 0 < (\<Sum>k\<le>i. (q::real) ^ k)"
proof -
  assume q: "0 \<le> q"
  have "(\<Sum>k\<le>i. q ^ k) = 1 + (\<Sum>k\<le>i. q ^ k) - q ^ 0" by simp
  have "q ^ 0 \<le> (\<Sum>k\<le>i. q ^ k)"
    by (rule member_le_sum) (use q in auto)
  then show ?thesis by simp
qed

lemma weighted_ema_rec:
  assumes "0 \<le> 1 - \<alpha>"
  shows "weighted_ema \<alpha> close (Suc i) =
         step_factor \<alpha> (Suc i) * close ! Suc i + (1 - step_factor \<alpha> (Suc i)) * weighted_ema \<alpha> close i"
proof -
  define q where "q = 1 - \<alpha>"
  define D where "D = (\<Sum>k\<le>i. q ^ k)"
  define N where "N = (\<Sum>k\<le>i. q ^ k * close ! (i - k))"
  have D: "0 < D" unfolding D_def using assms q_def by (simp add: weight_sum_pos)
  have D': "(\<Sum>k\<le>Suc i. q ^ k) = 1 + q * D"
    unfolding D_def by (simp add: sum.atMost_Suc_shift sum_distrib_left del: sum.atMost_Suc)
  have N': "(\<Sum>k\<le>Suc i. q ^ k * close ! (Suc i - k)) = close ! Suc i + q * N"
    unfolding N_def by (simp add: sum.atMost_Suc_shift sum_distrib_left mult.assoc del: sum.atMost_Suc)
  have pos: "0 < 1 + q * D" using D assms q_def by (simp add: add_pos_nonneg)
  have "1 - 1 / (1 + q * D) = q * D / (1 + q * D)"
    using pos by (simp add: field_simps)
  then have "(1 - 1 / (1 + q * D)) * (N / D) = q * N / (1 + q * D)"
    using D by simp
  then have "(close ! Suc i + q * N) / (1 + q * D) =
        1 / (1 + q * D) * close ! Suc i + (1 - 1 / (1 + q * D)) * (N / D)"
    by (simp add: add_divide_distrib)
  then show ?thesis
    unfolding weighted_ema_def step_factor_def
    using D' N' by (simp only: q_def[symmetric] D_def[symmetric] N_def[symmetric])
qed

lemma getitem_setitem:
  "getitem (setitem d k s) k' = (if k' = k then Inr s else getitem d k')"
  by (simp add: getitem_def setitem_def update_conv')

lemma map_of_setitem:
  "map_of (columns (setitem d k s)) k' = (if k' = k then Some s else map_of (columns d) k')"
  by (simp add: setitem_def update_conv')

lemma index_setitem: "index (setitem d k s) = index d"
  by (simp add: setitem_def)

lemma fetch_body_enriched:
  assumes "history symbol period = Inr d" "\<not> frame_empty d"
    and "map_of (columns d) ''Close'' = Some c"
  shows "fetch_body history symbol period =
         Inr (setitem (setitem (setitem (setitem d ''Returns'' (pct_change c))
                ''EMA_9'' (ewm_mean 9 c)) ''EMA_50'' (ewm_mean 50 c)) ''EMA_200'' (ewm_mean 200 c))"
proof -
  have g: "getitem d ''Close'' = Inr c" using assms(3) by (simp add: getitem_def)
  show ?thesis
    using assms(1,2) g by (simp add: fetch_body_def bind_def getitem_setitem)
qed

lemma price_history_nonempty: "price_history d close \<Longrightarrow> \<not> frame_empty d"
  by (auto simp: price_history_def frame_empty_def)

lemma fetch_column:
  assumes "history symbol period = Inr d" "\<not> frame_empty d"
    and "map_of (columns d) ''Close'' = Some c"
  shows "column_of (fetch_stock_data history symbol period) k =
          (if k = ''EMA_200'' then Some (ewm_mean 200 c)
           else if k = ''EMA_50'' then Some (ewm_mean 50 c)
           else if k = ''EMA_9'' then Some (ewm_mean 9 c)
           else if k = ''Returns'' then Some (pct_change c)
           else map_of (columns d) k)"
proof -
  have "fetch_body history symbol period =
         Inr (setitem (setitem (setitem (setitem d ''Returns'' (pct_change c))
                ''EMA_9'' (ewm_mean 9 c)) ''EMA_50'' (ewm_mean 50 c)) ''EMA_200'' (ewm_mean 200 c))"
    using assms by (rule fetch_body_enriched)
  then show ?thesis
    by (simp add: fetch_stock_data_def column_of_def map_of_setitem)
qed

lemma ewm_mean_closed:
  assumes "1 \<le> s"
  shows "ewm_mean s (map Fin close) = map Fin (map (weighted_ema (ema_alpha s) close) [0..<length close])"
  by (rule nth_equalityI) (simp_all add: ewm_mean_length ewm_mean_nth[OF assms])

lemma ema_column:
  assumes "history symbol period = Inr d" and "price_history d close"
    and "(name, s) \<in> {(''EMA_9'', 9), (''EMA_50'', 50), (''EMA_200'', 200)}"
  shows "column_of (fetch_stock_data history symbol period) name =
         Some (map Fin (map (weighted_ema (ema_alpha s) close) [0..<length close]))"
proof -
  have ne: "\<not> frame_empty d" using assms(2) by (rule price_history_nonempty)
  have c: "map_of (columns d) ''Close'' = Some (map Fin close)"
    using assms(2) by (simp add: price_history_def)
  have col: "column_of (fetch_stock_data history symbol period) name =
          (if name = ''EMA_200'' then Some (ewm_mean 200 (map Fin close))
           else if name = ''EMA_50'' then Some (ewm_mean 50 (map Fin close))
           else if name = ''EMA_9'' then Some (ewm_mean 9 (map Fin close))
           else if name = ''Returns'' then Some (pct_change (map Fin close))
           else map_of (columns d) name)"
    using assms(1) ne c by (rule fetch_column)
  from assms(3) show ?thesis
    unfolding col by (auto simp: ewm_mean_closed)
qed

lemma fetch_ohlcv_column:
  assumes "ts \<noteq> []"
  shows "column_of (fetch_stock_data (provider (ohlcv_frame ts opens highs lows closes volumes))
            symbol period) k =
          (if k = ''EMA_200'' then Some (ewm_mean 200 (map Fin closes))
           else if k = ''EMA_50'' then Some (ewm_mean 50 (map Fin closes))
           else if k = ''EMA_9'' then Some (ewm_mean 9 (map Fin closes))
           else if k = ''Returns'' then Some (pct_change (map Fin closes))
           else map_of (columns (ohlcv_frame ts opens highs lows closes volumes)) k)"
proof (rule fetch_column)
  show "provider (ohlcv_frame ts opens highs lows closes volumes) symbol period
        = Inr (ohlcv_frame ts opens highs lows closes volumes)"
    by (simp add: provider_def)
  show "\<not> frame_empty (ohlcv_frame ts opens highs lows closes volumes)"
    using assms by (simp add: frame_empty_def ohlcv_frame_def)
  show "map_of (columns (ohlcv_frame ts opens highs lows closes volumes)) ''Close'' = Some (map Fin closes)"
    by (simp add: ohlcv_frame_def)
qed

lemma ewm_mean_9_example: "ewm_mean 9 [Fin 1, Fin 2] = [Fin 1, Fin (14 / 9)]"
  by (simp add: ewm_mean_def ewm_step_def get_center_of_mass_def)

lemma pct_change_length: "length (pct_change s) = length s"
  by (cases s) simp_all

lemma pct_change_nth:
  assumes "1 \<le> i" "i < length s"
  shows "pct_change s ! i = fsub (fdiv (s ! i) (s ! (i - 1))) (Fin 1)"
proof -
  obtain x xs where s: "s = x # xs" using assms(2) by (cases s) auto
  obtain j where j: "i = Suc j" using assms(1) by (cases i) auto
  have "j < length xs" using assms(2) s j by simp
  then show ?thesis by (simp add: s j)
qed

lemma columns_setitem_keys:
  "fst ` set (columns (setitem d k s)) = insert k (fst ` set (columns d))"
  by (simp add: setitem_def dom_update)


section \<open>Returns, positions and the statistics of finite series\<close>

lemma iloc_last: "s \<noteq> [] \<Longrightarrow> iloc s (- 1) = Inr (last s)"
proof -
  assume s: "s \<noteq> []"
  then have l: "1 \<le> length s"
    by (cases s) simp_all
  then have "nat (int (length s) + - 1) = length s - 1"
    by simp
  with s l show ?thesis
    by (simp add: iloc_def Let_def last_conv_nth)
qed

lemma iloc_first: "s \<noteq> [] \<Longrightarrow> iloc s 0 = Inr (s ! 0)"
  by (simp add: iloc_def)

lemma iloc_second_last: "2 \<le> length s \<Longrightarrow> iloc s (- 2) = Inr (s ! (length s - 2))"
proof -
  assume s: "2 \<le> length s"
  then have "nat (int (length s) + - 2) = length s - 2" by simp
  with s show ?thesis
    by (simp add: iloc_def Let_def)
qed

lemma pct_change_fin:
  assumes "0 \<notin> set close" and "close \<noteq> []"
  shows "pct_change (map Fin close) = NaN # map Fin (daily_returns close)"
proof (rule nth_equalityI)
  show "length (pct_change (map Fin close)) = length (NaN # map Fin (daily_returns close))"
  proof -
    have "0 < length close" using assms(2) by simp
    then show ?thesis by (simp add: pct_change_length daily_returns_def)
  qed
next
  fix i assume "i < length (pct_change (map Fin close))"
  then have i: "i < length close" by (simp add: pct_change_length)
  show "pct_change (map Fin close) ! i = (NaN # map Fin (daily_returns close)) ! i"
  proof (cases i)
    case 0
    then show ?thesis using assms(2) by (cases close) simp_all
  next
    case (Suc j)
    have nz: "close ! j \<noteq> 0"
      using assms(1) i Suc by (metis Suc_lessD nth_mem)
    have "pct_change (map Fin close) ! Suc j
          = fsub (fdiv (map Fin close ! Suc j) (map Fin close ! j)) (Fin 1)"
      using i Suc by (simp add: pct_change_nth)
    also have "\<dots> = Fin (close ! Suc j / close ! j - 1)"
      using i Suc nz by (simp add: fsub_def)
    also have "close ! Suc j / close ! j - 1 = (close ! Suc j - close ! j) / close ! j"
      using nz by (simp add: field_simps)
    finally show ?thesis
      using i Suc by (simp add: daily_returns_def)
  qed
qed

lemma dropna_fin: "dropna (map Fin rs) = map Fin rs"
  by (induction rs) (simp_all add: dropna_def)

lemma dropna_nan: "dropna (NaN # s) = dropna s"
  by (simp add: dropna_def)

lemma dropna_idem: "dropna (dropna s) = dropna s"
  by (simp add: dropna_def)

lemma fsum_fin: "fsum (map Fin rs) = Fin (sum_list rs)"
  by (induction rs) simp_all

lemma mean_fin: "rs \<noteq> [] \<Longrightarrow> mean (map Fin rs) = Fin (arith_mean rs)"
  by (simp add: mean_def dropna_fin fsum_fin arith_mean_def Let_def)

lemma std_fin:
  assumes "2 \<le> length rs"
  shows "std (map Fin rs) = Fin (sample_stddev rs)"
proof -
  define m where "m = sum_list rs / real (length rs)"
  have n: "real (length rs) \<noteq> 0" "real (length rs - 1) \<noteq> 0" "\<not> length rs \<le> 1"
    using assms by auto
  have avg: "fdiv (fsum (map Fin rs)) (Fin (real (length rs))) = Fin m"
    using n(1) by (simp add: fsum_fin m_def)
  have sq: "map (\<lambda>v. fmul (fsub (Fin m) v) (fsub (Fin m) v)) (map Fin rs)
            = map Fin (map (\<lambda>r. (r - m)\<^sup>2) rs)"
    by (simp add: fsub_def power2_eq_square algebra_simps)
  have nonneg: "0 \<le> (\<Sum>r\<leftarrow>rs. (r - m)\<^sup>2) / real (length rs - 1)"
    by (intro divide_nonneg_nonneg sum_list_nonneg) auto
  have "std (map Fin rs) =
          fsqrt (fdiv (fsum (map (\<lambda>v. fmul (fsub (Fin m) v) (fsub (Fin m) v)) (map Fin rs)))
                      (Fin (real (length rs - 1))))"
    using n(3) avg by (simp add: std_def dropna_fin Let_def)
  also have "\<dots> = fsqrt (fdiv (fsum (map Fin (map (\<lambda>r. (r - m)\<^sup>2) rs)))
                                  (Fin (real (length rs - 1))))"
    by (simp only: sq)
  also have "\<dots> = Fin (sqrt ((\<Sum>r\<leftarrow>rs. (r - m)\<^sup>2) / real (length rs - 1)))"
    using n(2) nonneg by (simp only: fsum_fin fdiv.simps fsqrt.simps if_False not_less[symmetric])
  finally show ?thesis
    by (simp add: sample_stddev_def arith_mean_def m_def)
qed

lemma stats_returns_fin:
  assumes "0 \<notin> set close" and "close \<noteq> []"
  shows "dropna (pct_change (map Fin close)) = map Fin (daily_returns close)"
  using assms by (simp add: pct_change_fin dropna_nan dropna_fin)

lemma stats_panel_enriched:
  assumes "history symbol period = Inr d" and "price_history d close"
    and "map_of (columns d) ''Volume'' = Some vol" and "vol \<noteq> []"
  shows "create_stats_panel (fetch_stock_data history symbol period) =
         Inr (Markdown_stats
           \<lparr>current_price = Fin (last close),
            daily_change = fsub (Fin (last close))
               (Fin (if 1 < length close then close ! (length close - 2) else last close)),
            daily_change_pct = fmul (fdiv (fsub (Fin (last close))
               (Fin (if 1 < length close then close ! (length close - 2) else last close)))
               (Fin (if 1 < length close then close ! (length close - 2) else last close))) (Fin 100),
            period_return =
               fmul (fdiv (fsub (Fin (last close)) (Fin (close ! 0))) (Fin (close ! 0))) (Fin 100),
            annualized_return =
               fmul (fmul (mean (dropna (pct_change (map Fin close)))) (Fin 252)) (Fin 100),
            volatility =
               fmul (fmul (std (dropna (pct_change (map Fin close)))) (Fin (sqrt 252))) (Fin 100),
            latest_volume = last vol, avg_volume = mean vol,
            range_start = index d ! 0, range_end = last (index d)\<rparr>)"
proof -
  define e where "e = setitem (setitem (setitem (setitem d ''Returns'' (pct_change (map Fin close)))
                ''EMA_9'' (ewm_mean 9 (map Fin close))) ''EMA_50'' (ewm_mean 50 (map Fin close)))
                ''EMA_200'' (ewm_mean 200 (map Fin close))"
  have ne: "\<not> frame_empty d" using assms(2) by (rule price_history_nonempty)
  have c: "map_of (columns d) ''Close'' = Some (map Fin close)"
    and nonempty: "close \<noteq> []" and rows: "length (index d) = length close"
    using assms(2) by (simp_all add: price_history_def)
  have "fetch_body history symbol period = Inr e"
    unfolding e_def using assms(1) ne c by (rule fetch_body_enriched)
  then have f: "fetch_stock_data history symbol period = Some e"
    by (simp add: fetch_stock_data_def)
  have idx: "index e = index d" by (simp add: e_def index_setitem)
  have "getitem d ''Close'' = Inr (map Fin close)"
    using c by (simp add: getitem_def)
  then have g_close: "getitem e ''Close'' = Inr (map Fin close)"
    by (simp add: e_def getitem_setitem)
  have g_ret: "getitem e ''Returns'' = Inr (pct_change (map Fin close))"
    by (simp add: e_def getitem_setitem)
  have "getitem d ''Volume'' = Inr vol"
    using assms(3) by (simp add: getitem_def)
  then have g_vol: "getitem e ''Volume'' = Inr vol"
    by (simp add: e_def getitem_setitem)
  have "columns e \<noteq> []"
    using g_close by (auto simp: getitem_def)
  then have ne': "\<not> frame_empty e"
    using ne by (simp add: frame_empty_def idx)
  have len: "len e = length close" by (simp add: len_def idx rows)
  have i1: "iloc (map Fin close) (- 1) = Inr (Fin (last close))"
    using nonempty by (simp add: iloc_last last_map)
  have i2: "1 < length close \<Longrightarrow>
            iloc (map Fin close) (- 2) = Inr (Fin (close ! (length close - 2)))"
    by (simp add: iloc_second_last)
  have i0: "iloc (map Fin close) 0 = Inr (Fin (close ! 0))"
    using nonempty by (simp add: iloc_first)
  have iv: "iloc vol (- 1) = Inr (last vol)"
    using assms(4) by (rule iloc_last)
  have inz: "index d \<noteq> []" using rows nonempty by auto
  have d0: "iloc (index d) 0 = Inr (index d ! 0)" using inz by (rule iloc_first)
  have d1: "iloc (index d) (- 1) = Inr (last (index d))" using inz by (rule iloc_last)
  show ?thesis
    unfolding f
    by (simp add: create_stats_panel_def ne' g_close g_ret g_vol len i1 i2 i0 iv idx d0 d1
        bind_def dropna_idem Let_def)
qed

lemma daily_returns_all_equal:
  assumes "0 \<notin> set close" and "\<forall>x\<in>set close. x = c"
  shows "daily_returns close = replicate (length close - 1) 0"
proof (rule nth_equalityI)
  show "length (daily_returns close) = length (replicate (length close - 1) 0)"
    by (simp add: daily_returns_def)
next
  fix i assume "i < length (daily_returns close)"
  then have i: "i < length close - 1" by (simp add: daily_returns_def)
  then have "close ! i = c" "close ! Suc i = c"
    using assms(2) by simp_all
  then show "daily_returns close ! i = replicate (length close - 1) 0 ! i"
    using i by (simp add: daily_returns_def)
qed

lemma arith_mean_zeros: "arith_mean (replicate n 0) = 0"
  by (simp add: arith_mean_def sum_list_replicate)

lemma sample_stddev_zeros: "sample_stddev (replicate n 0) = 0"
  by (simp add: sample_stddev_def arith_mean_zeros sum_list_replicate)

section \<open>The error of float64 rounding\<close>




















section \<open>Claims\<close>

text \<open>
  C1 (as amended). For a non-empty price history and each span \<open>s\<close> of 9, 50 and 200, the
  moving-average column has the length of the input, starts at \<open>close[0]\<close>, and from index 1
  on satisfies \<open>ema[i] = a\<^sub>i * close[i] + (1 - a\<^sub>i) * ema[i-1]\<close>, where the factor
  \<open>a\<^sub>i = 1 / (\<Sum>k\<le>i. (1 - \<alpha>) ^ k)\<close> depends on the index and \<open>\<alpha> = 2 / (s + 1)\<close>.
\<close>

theorem ema_adjusted_recursion:
  assumes "history symbol period = Inr d" and "price_history d close"
    and "(name, s) \<in> {(''EMA_9'', 9), (''EMA_50'', 50), (''EMA_200'', 200)}"
  shows "\<exists>ema. column_of (fetch_stock_data history symbol period) name = Some (map Fin ema) \<and>
           length ema = length close \<and> ema ! 0 = close ! 0 \<and>
           (\<forall>i. 1 \<le> i \<and> i < length close \<longrightarrow>
              ema ! i = step_factor (ema_alpha s) i * close ! i
                        + (1 - step_factor (ema_alpha s) i) * ema ! (i - 1))"
proof -
  define ema where "ema = map (weighted_ema (ema_alpha s) close) [0..<length close]"
  have s: "1 \<le> s" using assms(3) by auto
  then have q: "0 \<le> 1 - ema_alpha s" by (simp add: ema_alpha_def)
  have ne: "close \<noteq> []" using assms(2) by (simp add: price_history_def)
  have col: "column_of (fetch_stock_data history symbol period) name = Some (map Fin ema)"
    unfolding ema_def using assms by (rule ema_column)
  have len: "length ema = length close" by (simp add: ema_def)
  have first: "ema ! 0 = close ! 0"
    using ne by (simp add: ema_def weighted_ema_def)
  have rec: "ema ! i = step_factor (ema_alpha s) i * close ! i
                        + (1 - step_factor (ema_alpha s) i) * ema ! (i - 1)"
    if i: "1 \<le> i \<and> i < length close" for i
  proof -
    obtain j where j: "i = Suc j" using i by (cases i) auto
    show ?thesis
      using i weighted_ema_rec[OF q, of close j] by (simp add: j ema_def del: upt_Suc)
  qed
  from col len first rec show ?thesis by blast
qed

theorem ema_adjusted_recursion_witness:
  "price_history (ohlcv_frame [0, 1] [1, 2] [1, 2] [1, 2] [1, 2] [10, 10]) [1, 2] \<and>
   (\<exists>ema. column_of (fetch_stock_data (provider (ohlcv_frame [0, 1] [1, 2] [1, 2] [1, 2] [1, 2] [10, 10]))
              ''^GSPC'' ''2y'') ''EMA_9'' = Some (map Fin ema) \<and>
          length ema = 2 \<and> ema ! 0 = 1 \<and> ema ! 1 = 5 / 9 * 2 + (1 - 5 / 9) * ema ! 0)"
proof -
  have h: "price_history (ohlcv_frame [0, 1] [1, 2] [1, 2] [1, 2] [1, 2] [10, 10]) [1, 2]"
    by (simp add: price_history_def ohlcv_frame_def)
  have p: "provider (ohlcv_frame [0, 1] [1, 2] [1, 2] [1, 2] [1, 2] [10, 10]) ''^GSPC'' ''2y''
           = Inr (ohlcv_frame [0, 1] [1, 2] [1, 2] [1, 2] [1, 2] [10, 10])"
    by (simp add: provider_def)
  have f: "step_factor (ema_alpha 9) 1 = 5 / 9"
    by (simp add: step_factor_def ema_alpha_def)
  have m: "(''EMA_9'', 9 :: real) \<in> {(''EMA_9'', 9), (''EMA_50'', 50), (''EMA_200'', 200)}"
    by simp
  obtain ema where e: "column_of (fetch_stock_data
        (provider (ohlcv_frame [0, 1] [1, 2] [1, 2] [1, 2] [1, 2] [10, 10])) ''^GSPC'' ''2y'') ''EMA_9''
        = Some (map Fin ema)" "length ema = length [1, 2 :: real]" "ema ! 0 = [1, 2] ! 0"
      "\<forall>i. 1 \<le> i \<and> i < length [1, 2 :: real] \<longrightarrow>
          ema ! i = step_factor (ema_alpha 9) i * [1, 2] ! i
                    + (1 - step_factor (ema_alpha 9) i) * ema ! (i - 1)"
    using ema_adjusted_recursion[of "provider (ohlcv_frame [0, 1] [1, 2] [1, 2] [1, 2] [1, 2] [10, 10])"
        "''^GSPC''" "''2y''" "ohlcv_frame [0, 1] [1, 2] [1, 2] [1, 2] [1, 2] [10, 10]" "[1, 2]"
        "''EMA_9''" 9, OF p h m]
    by (elim exE conjE) (rule that)
  have "ema ! 1 = step_factor (ema_alpha 9) 1 * [1, 2] ! 1
                  + (1 - step_factor (ema_alpha 9) 1) * ema ! (1 - 1)"
    using e(4)[rule_format, of 1] by simp
  then have "ema ! 1 = 5 / 9 * 2 + (1 - 5 / 9) * ema ! 0"
    unfolding f by simp
  with h e(1,2,3) show ?thesis by auto
qed

text \<open>
  C1 as stated fails: on the closes 1, 2 the span-9 average at index 1 is \<open>14/9\<close>, while the
  recursion with the constant factor \<open>\<alpha>\<close> gives \<open>6/5\<close>.
\<close>

theorem ema_simple_recursion_counterexample:
  "column_of (fetch_stock_data (provider (ohlcv_frame [0, 1] [1, 2] [1, 2] [1, 2] [1, 2] [10, 10]))
      ''^GSPC'' ''2y'') ''EMA_9'' = Some [Fin 1, Fin (14 / 9)] \<and>
   (14 / 9 :: real) \<noteq> ema_alpha 9 * 2 + (1 - ema_alpha 9) * 1"
  by (simp add: fetch_ohlcv_column ewm_mean_9_example ema_alpha_def)

text \<open>
  C2. For a non-empty price history and each span \<open>s\<close> of 9, 50 and 200, the moving-average
  column at index \<open>i\<close> is the average of the closes up to \<open>i\<close>, the close \<open>k\<close> bars back
  weighted by \<open>(1 - \<alpha>) ^ k\<close>, divided by the sum of these weights, with \<open>\<alpha> = 2 / (s + 1)\<close>.
\<close>

theorem ema_weighted_average:
  assumes "history symbol period = Inr d" and "price_history d close"
    and "(name, s) \<in> {(''EMA_9'', 9), (''EMA_50'', 50), (''EMA_200'', 200)}"
  shows "\<exists>ema. column_of (fetch_stock_data history symbol period) name = Some ema \<and>
           length ema = length close \<and>
           (\<forall>i<length close. ema ! i = Fin (weighted_ema (ema_alpha s) close i))"
proof -
  have "column_of (fetch_stock_data history symbol period) name =
         Some (map Fin (map (weighted_ema (ema_alpha s) close) [0..<length close]))"
    using assms by (rule ema_column)
  then show ?thesis by simp
qed

theorem ema_weighted_average_witness:
  "price_history (ohlcv_frame [0, 1, 2] [1, 2, 4] [1, 2, 4] [1, 2, 4] [1, 2, 4] [10, 10, 10]) [1, 2, 4] \<and>
   (\<exists>ema. column_of (fetch_stock_data
      (provider (ohlcv_frame [0, 1, 2] [1, 2, 4] [1, 2, 4] [1, 2, 4] [1, 2, 4] [10, 10, 10]))
      ''^GSPC'' ''2y'') ''EMA_9'' = Some ema \<and> length ema = 3 \<and>
      ema ! 0 = Fin 1 \<and> ema ! 1 = Fin (14 / 9) \<and> ema ! 2 = Fin (156 / 61))"
proof -
  have h: "price_history (ohlcv_frame [0, 1, 2] [1, 2, 4] [1, 2, 4] [1, 2, 4] [1, 2, 4] [10, 10, 10]) [1, 2, 4]"
    by (simp add: price_history_def ohlcv_frame_def)
  have p: "provider (ohlcv_frame [0, 1, 2] [1, 2, 4] [1, 2, 4] [1, 2, 4] [1, 2, 4] [10, 10, 10]) ''^GSPC'' ''2y''
           = Inr (ohlcv_frame [0, 1, 2] [1, 2, 4] [1, 2, 4] [1, 2, 4] [1, 2, 4] [10, 10, 10])"
    by (simp add: provider_def)
  have m: "(''EMA_9'', 9 :: real) \<in> {(''EMA_9'', 9), (''EMA_50'', 50), (''EMA_200'', 200)}"
    by simp
  have w0: "weighted_ema (ema_alpha 9) [1, 2, 4] 0 = 1"
    by (simp add: weighted_ema_def)
  have w1: "weighted_ema (ema_alpha 9) [1, 2, 4] 1 = 14 / 9"
    by (simp add: weighted_ema_def ema_alpha_def)
  have w2: "weighted_ema (ema_alpha 9) [1, 2, 4] 2 = 156 / 61"
    by (simp add: weighted_ema_def ema_alpha_def eval_nat_numeral)
  obtain ema where e: "column_of (fetch_stock_data
      (provider (ohlcv_frame [0, 1, 2] [1, 2, 4] [1, 2, 4] [1, 2, 4] [1, 2, 4] [10, 10, 10]))
      ''^GSPC'' ''2y'') ''EMA_9'' = Some ema" "length ema = length [1, 2, 4 :: real]"
      "\<forall>i<length [1, 2, 4 :: real]. ema ! i = Fin (weighted_ema (ema_alpha 9) [1, 2, 4] i)"
    using ema_weighted_average[of
        "provider (ohlcv_frame [0, 1, 2] [1, 2, 4] [1, 2, 4] [1, 2, 4] [1, 2, 4] [10, 10, 10])"
        "''^GSPC''" "''2y''" "ohlcv_frame [0, 1, 2] [1, 2, 4] [1, 2, 4] [1, 2, 4] [1, 2, 4] [10, 10, 10]"
        "[1, 2, 4]" "''EMA_9''" 9, OF p h m] by blast
  have "ema ! 0 = Fin 1" "ema ! 1 = Fin (14 / 9)" "ema ! 2 = Fin (156 / 61)"
    using e(3) w0 w1 w2 by simp_all
  with h e(1,2) show ?thesis by simp
qed

text \<open>
  C3 (as amended). When the market-data call answers with an empty frame, the body of
  \<open>fetch_stock_data\<close> raises the "No data found" error before any derived column is
  computed; the function's own handler catches it, and the caller receives \<open>None\<close>, the
  value it also receives when the market-data call itself fails.
\<close>

theorem empty_history_returns_none:
  assumes "history symbol period = Inr d" and "frame_empty d"
  shows "fetch_body history symbol period = Inl (ValueError (''No data found for '' @ symbol)) \<and>
         fetch_stock_data history symbol period = None \<and>
         fetch_stock_data history symbol period = fetch_stock_data (failing_provider e) symbol period"
  using assms
  by (simp add: fetch_body_def fetch_stock_data_def bind_def failing_provider_def)

theorem empty_history_returns_none_witness:
  "frame_empty \<lparr>index = [], columns = [(''Close'', [])]\<rparr> \<and>
   fetch_body (provider \<lparr>index = [], columns = [(''Close'', [])]\<rparr>) ''^GSPC'' ''2y''
     = Inl (ValueError ''No data found for ^GSPC'') \<and>
   fetch_stock_data (provider \<lparr>index = [], columns = [(''Close'', [])]\<rparr>) ''^GSPC'' ''2y'' = None"
proof -
  have e: "frame_empty \<lparr>index = [], columns = [(''Close'', [])]\<rparr>"
    by (simp add: frame_empty_def)
  have p: "provider \<lparr>index = [], columns = [(''Close'', [])]\<rparr> ''^GSPC'' ''2y''
           = Inr \<lparr>index = [], columns = [(''Close'', [])]\<rparr>"
    by (simp add: provider_def)
  show ?thesis
    using e empty_history_returns_none[of "provider \<lparr>index = [], columns = [(''Close'', [])]\<rparr>"
        "''^GSPC''" "''2y''" "\<lparr>index = [], columns = [(''Close'', [])]\<rparr>", OF p e]
    by simp
qed

text \<open>
  C3 as stated fails: the error raised on an empty frame does not reach the caller. The
  caller receives \<open>None\<close>, and receives the same \<open>None\<close> after a failed market-data call and
  for a frame that has rows but no \<open>Close\<close> column.
\<close>

theorem empty_input_error_not_surfaced_counterexample:
  "fetch_body (provider \<lparr>index = [], columns = [(''Close'', [])]\<rparr>) ''^GSPC'' ''2y''
     = Inl (ValueError ''No data found for ^GSPC'') \<and>
   fetch_stock_data (provider \<lparr>index = [], columns = [(''Close'', [])]\<rparr>) ''^GSPC'' ''2y'' = None \<and>
   fetch_stock_data (failing_provider (ProviderError ''connection refused'')) ''^GSPC'' ''2y'' = None \<and>
   fetch_stock_data (provider \<lparr>index = [0], columns = [(''Open'', [Fin 1])]\<rparr>) ''^GSPC'' ''2y'' = None"
  by (simp add: fetch_body_def fetch_stock_data_def bind_def failing_provider_def provider_def
      frame_empty_def getitem_def)




text \<open>
  C5 (as amended). For an enriched history with no zero close, the annualized return of the
  statistics panel is the arithmetic mean of the daily returns times 252 times 100 when the
  history has two bars or more, and the annualized volatility is their sample standard
  deviation times \<open>sqrt 252\<close> times 100 when it has three bars or more; on a flat close
  series of three bars or more (ten bars at 100.0, say) both are 0.
\<close>

theorem annualized_figures:
  assumes "history symbol period = Inr d" and "price_history d close" and "0 \<notin> set close"
    and "map_of (columns d) ''Volume'' = Some vol" and "vol \<noteq> []" and "2 \<le> length close"
  shows "map_option annualized_return
           (stats_of (create_stats_panel (fetch_stock_data history symbol period)))
           = Some (Fin (arith_mean (daily_returns close) * 252 * 100)) \<and>
         (3 \<le> length close \<longrightarrow>
            map_option volatility
              (stats_of (create_stats_panel (fetch_stock_data history symbol period)))
              = Some (Fin (sample_stddev (daily_returns close) * sqrt 252 * 100))) \<and>
         (3 \<le> length close \<and> (\<forall>x\<in>set close. x = c) \<longrightarrow>
            map_option volatility
              (stats_of (create_stats_panel (fetch_stock_data history symbol period)))
              = Some (Fin 0) \<and>
            map_option annualized_return
              (stats_of (create_stats_panel (fetch_stock_data history symbol period)))
              = Some (Fin 0))"
proof -
  note panel = stats_panel_enriched[of history symbol period d close vol, OF assms(1,2,4,5)]
  have ne: "close \<noteq> []" using assms(6) by auto
  have rets: "dropna (pct_change (map Fin close)) = map Fin (daily_returns close)"
    using assms(3) ne by (rule stats_returns_fin)
  have l: "length (daily_returns close) = length close - 1"
    by (simp add: daily_returns_def)
  have "daily_returns close \<noteq> []" using l assms(6) by auto
  then have m: "mean (map Fin (daily_returns close)) = Fin (arith_mean (daily_returns close))"
    by (rule mean_fin)
  have s: "std (map Fin (daily_returns close)) = Fin (sample_stddev (daily_returns close))"
    if "3 \<le> length close"
    using that l by (intro std_fin) simp
  have flat: "arith_mean (daily_returns close) = 0 \<and> sample_stddev (daily_returns close) = 0"
    if "\<forall>x\<in>set close. x = c"
    using daily_returns_all_equal[OF assms(3) that]
    by (simp add: arith_mean_zeros sample_stddev_zeros)
  show ?thesis
    unfolding panel using flat by (simp add: rets m s)
qed

theorem annualized_figures_witness:
  "price_history flat_ten_bars (replicate 10 100) \<and> 0 \<notin> set (replicate 10 (100 :: real)) \<and>
   map_option annualized_return
     (stats_of (create_stats_panel (fetch_stock_data (provider flat_ten_bars) ''^GSPC'' ''2y'')))
     = Some (Fin 0) \<and>
   map_option volatility
     (stats_of (create_stats_panel (fetch_stock_data (provider flat_ten_bars) ''^GSPC'' ''2y'')))
     = Some (Fin 0)"
proof -
  have p: "provider flat_ten_bars ''^GSPC'' ''2y'' = Inr flat_ten_bars"
    by (simp add: provider_def)
  have h: "price_history flat_ten_bars (replicate 10 100)"
    by (simp add: price_history_def flat_ten_bars_def ohlcv_frame_def)
  have z: "0 \<notin> set (replicate 10 (100 :: real))" by simp
  have v: "map_of (columns flat_ten_bars) ''Volume'' = Some (map Fin (replicate 10 5000))"
    by (simp add: flat_ten_bars_def ohlcv_frame_def)
  have n: "map Fin (replicate 10 (5000 :: real)) \<noteq> []" by simp
  have l: "2 \<le> length (replicate 10 (100 :: real))" by simp
  have f: "3 \<le> length (replicate 10 (100 :: real)) \<and> (\<forall>x\<in>set (replicate 10 (100 :: real)). x = 100)"
    by simp
  show ?thesis
    using h z f annualized_figures[of "provider flat_ten_bars" "''^GSPC''" "''2y''" flat_ten_bars
        "replicate 10 100" "map Fin (replicate 10 5000)" 100, OF p h z v n l]
    by blast
qed

text \<open>
  C5 as stated fails on short histories: two flat bars at 100.0 leave a single daily return,
  whose sample standard deviation is NaN, so the volatility is NaN and not 0; one bar leaves
  no return at all, and the annualized return is NaN as well.
\<close>

theorem flat_two_bars_counterexample:
  "map_option volatility (stats_of (create_stats_panel (fetch_stock_data
      (provider (ohlcv_frame [0, 1] [100, 100] [100, 100] [100, 100] [100, 100] [5000, 5000]))
      ''^GSPC'' ''2y''))) = Some NaN \<and>
   map_option annualized_return (stats_of (create_stats_panel (fetch_stock_data
      (provider (ohlcv_frame [0] [100] [100] [100] [100] [5000])) ''^GSPC'' ''2y''))) = Some NaN \<and>
   NaN \<noteq> Fin 0"
proof -
  have p2: "provider (ohlcv_frame [0, 1] [100, 100] [100, 100] [100, 100] [100, 100] [5000, 5000])
      ''^GSPC'' ''2y'' = Inr (ohlcv_frame [0, 1] [100, 100] [100, 100] [100, 100] [100, 100] [5000, 5000])"
    by (simp add: provider_def)
  have h2: "price_history (ohlcv_frame [0, 1] [100, 100] [100, 100] [100, 100] [100, 100] [5000, 5000])
      [100, 100]"
    by (simp add: price_history_def ohlcv_frame_def)
  have v2: "map_of (columns (ohlcv_frame [0, 1] [100, 100] [100, 100] [100, 100] [100, 100]
      [5000, 5000])) ''Volume'' = Some [Fin 5000, Fin 5000]"
    by (simp add: ohlcv_frame_def)
  have n2: "[Fin 5000, Fin 5000] \<noteq> []" by simp
  have p1: "provider (ohlcv_frame [0] [100] [100] [100] [100] [5000]) ''^GSPC'' ''2y''
           = Inr (ohlcv_frame [0] [100] [100] [100] [100] [5000])"
    by (simp add: provider_def)
  have h1: "price_history (ohlcv_frame [0] [100] [100] [100] [100] [5000]) [100]"
    by (simp add: price_history_def ohlcv_frame_def)
  have v1: "map_of (columns (ohlcv_frame [0] [100] [100] [100] [100] [5000])) ''Volume'' = Some [Fin 5000]"
    by (simp add: ohlcv_frame_def)
  have n1: "[Fin 5000] \<noteq> []" by simp
  show ?thesis
    unfolding stats_panel_enriched[of
        "provider (ohlcv_frame [0, 1] [100, 100] [100, 100] [100, 100] [100, 100] [5000, 5000])"
        "''^GSPC''" "''2y''" "ohlcv_frame [0, 1] [100, 100] [100, 100] [100, 100] [100, 100] [5000, 5000]"
        "[100, 100]" "[Fin 5000, Fin 5000]", OF p2 h2 v2 n2]
      stats_panel_enriched[of "provider (ohlcv_frame [0] [100] [100] [100] [100] [5000])"
        "''^GSPC''" "''2y''" "ohlcv_frame [0] [100] [100] [100] [100] [5000]" "[100]" "[Fin 5000]",
        OF p1 h1 v1 n1]
    by (simp add: fsub_def dropna_def std_def mean_def)
qed

text \<open>
  C6. On an input that stands for "no data" (\<open>None\<close> or an empty frame) neither builder
  raises: the chart has no series and carries the annotation "No data available", and the
  statistics panel is the placeholder text.
\<close>

theorem placeholders_on_no_data:
  assumes "no_data data"
  shows "(\<exists>fig. create_stock_chart data symbol = Inr fig \<and> length (fig_data fig) = 0 \<and>
            map an_text (fig_annotations fig) = [''No data available'']) \<and>
         create_stats_panel data = Inr (Markdown ''**No data available**'')"
proof (cases data)
  case None
  then show ?thesis
    by (simp add: create_stock_chart_def create_stats_panel_def add_annotation_def Figure_def)
next
  case (Some d)
  then have "frame_empty d" using assms by simp
  with Some show ?thesis
    by (simp add: create_stock_chart_def create_stats_panel_def add_annotation_def Figure_def)
qed

theorem placeholders_on_no_data_witness:
  "no_data None \<and> no_data (Some \<lparr>index = [], columns = [(''Close'', [])]\<rparr>) \<and>
   map_sum id fig_data (create_stock_chart None ''^GSPC'') = Inr [] \<and>
   map_sum id fig_data (create_stock_chart (Some \<lparr>index = [], columns = [(''Close'', [])]\<rparr>) ''^GSPC'') = Inr [] \<and>
   create_stats_panel None = Inr (Markdown ''**No data available**'') \<and>
   create_stats_panel (Some \<lparr>index = [], columns = [(''Close'', [])]\<rparr>) = Inr (Markdown ''**No data available**'')"
proof -
  have a: "no_data None" by simp
  have b: "no_data (Some \<lparr>index = [], columns = [(''Close'', [])]\<rparr>)"
    by (simp add: frame_empty_def)
  show ?thesis
    using a b placeholders_on_no_data[OF a, of "''^GSPC''"]
      placeholders_on_no_data[OF b, of "''^GSPC''"]
    by auto
qed

text \<open>
  C7. For a history of exactly one bar (with a non-zero close) the daily change and the
  period return of the statistics panel are both 0: the prior close falls back to the last
  close.
\<close>

theorem single_bar_summary:
  assumes "history symbol period = Inr d" and "price_history d [c]" and "c \<noteq> 0"
    and "map_of (columns d) ''Volume'' = Some vol" and "vol \<noteq> []"
  shows "map_option daily_change
           (stats_of (create_stats_panel (fetch_stock_data history symbol period))) = Some (Fin 0) \<and>
         map_option period_return
           (stats_of (create_stats_panel (fetch_stock_data history symbol period))) = Some (Fin 0)"
  unfolding stats_panel_enriched[of history symbol period d "[c]" vol, OF assms(1,2,4,5)]
  using assms(3) by (simp add: fsub_def)

theorem single_bar_summary_witness:
  "price_history (ohlcv_frame [0] [99] [101] [98] [100] [5000]) [100] \<and> (100 :: real) \<noteq> 0 \<and>
   map_option daily_change (stats_of (create_stats_panel (fetch_stock_data
      (provider (ohlcv_frame [0] [99] [101] [98] [100] [5000])) ''^GSPC'' ''2y''))) = Some (Fin 0) \<and>
   map_option period_return (stats_of (create_stats_panel (fetch_stock_data
      (provider (ohlcv_frame [0] [99] [101] [98] [100] [5000])) ''^GSPC'' ''2y''))) = Some (Fin 0)"
proof -
  have p: "provider (ohlcv_frame [0] [99] [101] [98] [100] [5000]) ''^GSPC'' ''2y''
           = Inr (ohlcv_frame [0] [99] [101] [98] [100] [5000])"
    by (simp add: provider_def)
  have h: "price_history (ohlcv_frame [0] [99] [101] [98] [100] [5000]) [100]"
    by (simp add: price_history_def ohlcv_frame_def)
  have z: "(100 :: real) \<noteq> 0" by simp
  have v: "map_of (columns (ohlcv_frame [0] [99] [101] [98] [100] [5000])) ''Volume'' = Some [Fin 5000]"
    by (simp add: ohlcv_frame_def)
  have n: "[Fin 5000] \<noteq> []" by simp
  show ?thesis
    using h z single_bar_summary[of "provider (ohlcv_frame [0] [99] [101] [98] [100] [5000])"
        "''^GSPC''" "''2y''" "ohlcv_frame [0] [99] [101] [98] [100] [5000]" 100 "[Fin 5000]",
        OF p h z v n]
    by simp
qed

text \<open>
  C8. For a non-empty history whose first close is not zero, the period return of the
  statistics panel is \<open>(close[last] - close[0]) / close[0] * 100\<close>; for the closes 100, 110,
  121 it is 21.
\<close>

theorem period_return_formula:
  assumes "history symbol period = Inr d" and "price_history d close" and "close ! 0 \<noteq> 0"
    and "map_of (columns d) ''Volume'' = Some vol" and "vol \<noteq> []"
  shows "map_option period_return
           (stats_of (create_stats_panel (fetch_stock_data history symbol period)))
         = Some (Fin ((last close - close ! 0) / close ! 0 * 100))"
  unfolding stats_panel_enriched[of history symbol period d close vol, OF assms(1,2,4,5)]
  using assms(3) by (simp add: fsub_def)

theorem period_return_formula_witness:
  "price_history (ohlcv_frame [0, 1, 2] [100, 110, 121] [100, 110, 121] [100, 110, 121]
      [100, 110, 121] [10, 10, 10]) [100, 110, 121] \<and>
   [100, 110, 121 :: real] ! 0 \<noteq> 0 \<and>
   map_option period_return (stats_of (create_stats_panel (fetch_stock_data
      (provider (ohlcv_frame [0, 1, 2] [100, 110, 121] [100, 110, 121] [100, 110, 121]
      [100, 110, 121] [10, 10, 10])) ''^GSPC'' ''2y''))) = Some (Fin 21)"
proof -
  have p: "provider (ohlcv_frame [0, 1, 2] [100, 110, 121] [100, 110, 121] [100, 110, 121]
      [100, 110, 121] [10, 10, 10]) ''^GSPC'' ''2y''
      = Inr (ohlcv_frame [0, 1, 2] [100, 110, 121] [100, 110, 121] [100, 110, 121]
      [100, 110, 121] [10, 10, 10])"
    by (simp add: provider_def)
  have h: "price_history (ohlcv_frame [0, 1, 2] [100, 110, 121] [100, 110, 121] [100, 110, 121]
      [100, 110, 121] [10, 10, 10]) [100, 110, 121]"
    by (simp add: price_history_def ohlcv_frame_def)
  have z: "[100, 110, 121 :: real] ! 0 \<noteq> 0" by simp
  have v: "map_of (columns (ohlcv_frame [0, 1, 2] [100, 110, 121] [100, 110, 121] [100, 110, 121]
      [100, 110, 121] [10, 10, 10])) ''Volume'' = Some [Fin 10, Fin 10, Fin 10]"
    by (simp add: ohlcv_frame_def)
  have n: "[Fin 10, Fin 10, Fin 10] \<noteq> []" by simp
  show ?thesis
    using h z period_return_formula[of "provider (ohlcv_frame [0, 1, 2] [100, 110, 121]
        [100, 110, 121] [100, 110, 121] [100, 110, 121] [10, 10, 10])" "''^GSPC''" "''2y''"
        "ohlcv_frame [0, 1, 2] [100, 110, 121] [100, 110, 121] [100, 110, 121] [100, 110, 121] [10, 10, 10]"
        "[100, 110, 121]" "[Fin 10, Fin 10, Fin 10]", OF p h z v n]
    by simp
qed

text \<open>
  C9. Fetching a non-empty frame with a \<open>Close\<close> column returns a frame with the same row
  index and the same \<open>Open\<close>, \<open>High\<close>, \<open>Low\<close>, \<open>Close\<close> and \<open>Volume\<close> columns; every
  column other than the four derived ones is unchanged, and the four derived names are the
  only columns added.
\<close>

theorem enrich_preserves_observations:
  assumes "history symbol period = Inr d" and "\<not> frame_empty d"
    and "map_of (columns d) ''Close'' = Some c"
  shows "\<exists>e. fetch_stock_data history symbol period = Some e \<and>
           index e = index d \<and> len e = len d \<and>
           (\<forall>k \<in> {''Open'', ''High'', ''Low'', ''Close'', ''Volume''}.
              map_of (columns e) k = map_of (columns d) k) \<and>
           (\<forall>k. k \<notin> {''Returns'', ''EMA_9'', ''EMA_50'', ''EMA_200''} \<longrightarrow>
              map_of (columns e) k = map_of (columns d) k) \<and>
           set (map fst (columns e)) =
             set (map fst (columns d)) \<union> {''Returns'', ''EMA_9'', ''EMA_50'', ''EMA_200''}"
proof -
  define e where "e = setitem (setitem (setitem (setitem d ''Returns'' (pct_change c))
                ''EMA_9'' (ewm_mean 9 c)) ''EMA_50'' (ewm_mean 50 c)) ''EMA_200'' (ewm_mean 200 c)"
  have "fetch_body history symbol period = Inr e"
    unfolding e_def using assms by (rule fetch_body_enriched)
  then have f: "fetch_stock_data history symbol period = Some e"
    by (simp add: fetch_stock_data_def)
  have i: "index e = index d" by (simp add: e_def index_setitem)
  have l: "len e = len d" by (simp add: len_def i)
  have other: "map_of (columns e) k = map_of (columns d) k"
    if "k \<notin> {''Returns'', ''EMA_9'', ''EMA_50'', ''EMA_200''}" for k
    using that by (simp add: e_def map_of_setitem)
  have five: "\<forall>k \<in> {''Open'', ''High'', ''Low'', ''Close'', ''Volume''}.
              map_of (columns e) k = map_of (columns d) k"
    by (simp add: e_def map_of_setitem)
  have keys: "set (map fst (columns e)) =
             set (map fst (columns d)) \<union> {''Returns'', ''EMA_9'', ''EMA_50'', ''EMA_200''}"
    by (auto simp: e_def columns_setitem_keys)
  show ?thesis
  proof (intro exI[of _ e] conjI allI impI)
    show "fetch_stock_data history symbol period = Some e" by (rule f)
    show "index e = index d" by (rule i)
    show "len e = len d" by (rule l)
    show "\<forall>k \<in> {''Open'', ''High'', ''Low'', ''Close'', ''Volume''}.
              map_of (columns e) k = map_of (columns d) k" by (rule five)
    show "map_of (columns e) k = map_of (columns d) k"
      if "k \<notin> {''Returns'', ''EMA_9'', ''EMA_50'', ''EMA_200''}" for k
      using that by (rule other)
    show "set (map fst (columns e)) =
             set (map fst (columns d)) \<union> {''Returns'', ''EMA_9'', ''EMA_50'', ''EMA_200''}"
      by (rule keys)
  qed
qed

theorem enrich_preserves_observations_witness:
  "\<not> frame_empty (ohlcv_frame [0, 1] [1, 2] [3, 4] [1, 1] [2, 3] [10, 20]) \<and>
   map_option index (fetch_stock_data (provider (ohlcv_frame [0, 1] [1, 2] [3, 4] [1, 1] [2, 3] [10, 20]))
      ''^GSPC'' ''2y'') = Some [0, 1] \<and>
   map (column_of (fetch_stock_data (provider (ohlcv_frame [0, 1] [1, 2] [3, 4] [1, 1] [2, 3] [10, 20]))
      ''^GSPC'' ''2y'')) [''Open'', ''High'', ''Low'', ''Close'', ''Volume'']
     = [Some [Fin 1, Fin 2], Some [Fin 3, Fin 4], Some [Fin 1, Fin 1], Some [Fin 2, Fin 3],
        Some [Fin 10, Fin 20]]"
proof -
  have n: "\<not> frame_empty (ohlcv_frame [0, 1] [1, 2] [3, 4] [1, 1] [2, 3] [10, 20])"
    by (simp add: frame_empty_def ohlcv_frame_def)
  have c: "map_of (columns (ohlcv_frame [0, 1] [1, 2] [3, 4] [1, 1] [2, 3] [10, 20])) ''Close''
           = Some [Fin 2, Fin 3]"
    by (simp add: ohlcv_frame_def)
  have p: "provider (ohlcv_frame [0, 1] [1, 2] [3, 4] [1, 1] [2, 3] [10, 20]) ''^GSPC'' ''2y''
           = Inr (ohlcv_frame [0, 1] [1, 2] [3, 4] [1, 1] [2, 3] [10, 20])"
    by (simp add: provider_def)
  obtain e where e: "fetch_stock_data (provider (ohlcv_frame [0, 1] [1, 2] [3, 4] [1, 1] [2, 3] [10, 20]))
      ''^GSPC'' ''2y'' = Some e"
    "index e = index (ohlcv_frame [0, 1] [1, 2] [3, 4] [1, 1] [2, 3] [10, 20])"
    "\<forall>k \<in> {''Open'', ''High'', ''Low'', ''Close'', ''Volume''}.
        map_of (columns e) k = map_of (columns (ohlcv_frame [0, 1] [1, 2] [3, 4] [1, 1] [2, 3] [10, 20])) k"
    using enrich_preserves_observations[of
        "provider (ohlcv_frame [0, 1] [1, 2] [3, 4] [1, 1] [2, 3] [10, 20])" "''^GSPC''" "''2y''"
        "ohlcv_frame [0, 1] [1, 2] [3, 4] [1, 1] [2, 3] [10, 20]" "[Fin 2, Fin 3]", OF p n c]
    by (elim exE conjE) (rule that)
  from e(3) have "map (\<lambda>k. map_of (columns e) k) [''Open'', ''High'', ''Low'', ''Close'', ''Volume'']
     = [Some [Fin 1, Fin 2], Some [Fin 3, Fin 4], Some [Fin 1, Fin 1], Some [Fin 2, Fin 3],
        Some [Fin 10, Fin 20]]"
    by (simp add: ohlcv_frame_def)
  with n e(1,2) show ?thesis by (simp add: column_of_def ohlcv_frame_def)
qed

text \<open>
  C10. With exactly one bar no daily return is defined, and the annualized return and the
  annualized volatility are both NaN. With exactly two bars (the first close not zero) one
  return is defined: the volatility is still NaN, the annualized return is that return times
  252 times 100.
\<close>

theorem short_history_annualization:
  assumes "history symbol period = Inr d" and "price_history d close"
    and "map_of (columns d) ''Volume'' = Some vol" and "vol \<noteq> []"
  shows "(length close = 1 \<longrightarrow>
            map_option annualized_return
              (stats_of (create_stats_panel (fetch_stock_data history symbol period))) = Some NaN \<and>
            map_option volatility
              (stats_of (create_stats_panel (fetch_stock_data history symbol period))) = Some NaN) \<and>
         (length close = 2 \<and> close ! 0 \<noteq> 0 \<longrightarrow>
            map_option volatility
              (stats_of (create_stats_panel (fetch_stock_data history symbol period))) = Some NaN \<and>
            map_option annualized_return
              (stats_of (create_stats_panel (fetch_stock_data history symbol period)))
              = Some (Fin ((close ! 1 - close ! 0) / close ! 0 * 252 * 100)))"
proof -
  note panel = stats_panel_enriched[of history symbol period d close vol, OF assms]
  have one: "mean (dropna (pct_change (map Fin close))) = NaN \<and>
             std (dropna (pct_change (map Fin close))) = NaN"
    if l1: "length close = 1"
  proof -
    obtain c where "close = [c]" using l1 by (cases close) auto
    then show ?thesis by (simp add: dropna_def mean_def std_def)
  qed
  have two: "mean (dropna (pct_change (map Fin close)))
               = Fin ((close ! 1 - close ! 0) / close ! 0) \<and>
             std (dropna (pct_change (map Fin close))) = NaN"
    if l2: "length close = 2 \<and> close ! 0 \<noteq> 0"
  proof -
    obtain a b where ab: "close = [a, b]"
      using l2 by (cases close; cases "tl close") auto
    then have a: "a \<noteq> 0" using l2 by simp
    then have "b / a - 1 = (b - a) / a" by (simp add: field_simps)
    with a show ?thesis
      by (simp add: ab fsub_def dropna_def mean_def std_def)
  qed
  show ?thesis
    unfolding panel using one two by simp
qed

theorem short_history_annualization_witness:
  "map_option annualized_return (stats_of (create_stats_panel (fetch_stock_data
      (provider (ohlcv_frame [0] [99] [101] [98] [100] [5000])) ''^GSPC'' ''2y''))) = Some NaN \<and>
   map_option volatility (stats_of (create_stats_panel (fetch_stock_data
      (provider (ohlcv_frame [0] [99] [101] [98] [100] [5000])) ''^GSPC'' ''2y''))) = Some NaN \<and>
   map_option volatility (stats_of (create_stats_panel (fetch_stock_data
      (provider (ohlcv_frame [0, 1] [100, 110] [100, 110] [100, 110] [100, 110] [5000, 6000]))
      ''^GSPC'' ''2y''))) = Some NaN \<and>
   map_option annualized_return (stats_of (create_stats_panel (fetch_stock_data
      (provider (ohlcv_frame [0, 1] [100, 110] [100, 110] [100, 110] [100, 110] [5000, 6000]))
      ''^GSPC'' ''2y''))) = Some (Fin 2520)"
proof -
  have p1: "provider (ohlcv_frame [0] [99] [101] [98] [100] [5000]) ''^GSPC'' ''2y''
           = Inr (ohlcv_frame [0] [99] [101] [98] [100] [5000])"
    by (simp add: provider_def)
  have h1: "price_history (ohlcv_frame [0] [99] [101] [98] [100] [5000]) [100]"
    by (simp add: price_history_def ohlcv_frame_def)
  have v1: "map_of (columns (ohlcv_frame [0] [99] [101] [98] [100] [5000])) ''Volume'' = Some [Fin 5000]"
    by (simp add: ohlcv_frame_def)
  have n1: "[Fin 5000] \<noteq> []" by simp
  have p2: "provider (ohlcv_frame [0, 1] [100, 110] [100, 110] [100, 110] [100, 110] [5000, 6000])
      ''^GSPC'' ''2y'' = Inr (ohlcv_frame [0, 1] [100, 110] [100, 110] [100, 110] [100, 110] [5000, 6000])"
    by (simp add: provider_def)
  have h2: "price_history (ohlcv_frame [0, 1] [100, 110] [100, 110] [100, 110] [100, 110] [5000, 6000])
      [100, 110]"
    by (simp add: price_history_def ohlcv_frame_def)
  have v2: "map_of (columns (ohlcv_frame [0, 1] [100, 110] [100, 110] [100, 110] [100, 110]
      [5000, 6000])) ''Volume'' = Some [Fin 5000, Fin 6000]"
    by (simp add: ohlcv_frame_def)
  have n2: "[Fin 5000, Fin 6000] \<noteq> []" by simp
  show ?thesis
    using short_history_annualization[of "provider (ohlcv_frame [0] [99] [101] [98] [100] [5000])"
        "''^GSPC''" "''2y''" "ohlcv_frame [0] [99] [101] [98] [100] [5000]" "[100]" "[Fin 5000]",
        OF p1 h1 v1 n1]
      short_history_annualization[of
        "provider (ohlcv_frame [0, 1] [100, 110] [100, 110] [100, 110] [100, 110] [5000, 6000])"
        "''^GSPC''" "''2y''" "ohlcv_frame [0, 1] [100, 110] [100, 110] [100, 110] [100, 110] [5000, 6000]"
        "[100, 110]" "[Fin 5000, Fin 6000]", OF p2 h2 v2 n2]
    by simp
qed

end
